theory Spec2Isabelle
  imports Main
begin

section \<open>Python values and exceptions\<close>

text \<open>
  The exception classes the two scripts can meet. All of them are subclasses of Python's
  \<open>Exception\<close>. \<open>ReadTimeout\<close>, \<open>ConnectionError\<close> and \<open>HTTPError\<close> come from the
  requests library, \<open>EnvError\<close> from environs, the others are built in.
  \<open>KeyboardInterrupt\<close> and \<open>SystemExit\<close>, which are no \<open>Exception\<close>, are raised by
  nothing in the two files and are left out.
\<close>

datatype exn =
    ReadTimeout
  | ConnectionError
  | HTTPError
  | ValueError
  | TypeError
  | AttributeError
  | EnvError

text \<open>
  A cell of the supplier spreadsheet as pandas hands it over: a string, an integer, or
  \<open>None\<close> (also what \<open>dict.get\<close> gives for a missing key). Strings are byte strings
  (UTF-8); floats are left out.
\<close>

datatype pyval = PNone | PInt int | PStr string

definition is_digit :: "char \<Rightarrow> bool" where
  "is_digit c = (c \<in> set ''0123456789'')"

definition digit_value :: "char \<Rightarrow> nat" where
  "digit_value c = of_char c - 48"

definition digit_char :: "nat \<Rightarrow> char" where
  "digit_char d = ''0123456789'' ! d"

function str_nat :: "nat \<Rightarrow> string" where
  "str_nat n = (if n < 10 then [digit_char n] else str_nat (n div 10) @ [digit_char (n mod 10)])"
  by pat_completeness auto
termination
  by (relation "measure id") auto

declare str_nat.simps [simp del]

text \<open>\<open>str(x)\<close> for the values of the model.\<close>

fun py_str :: "pyval \<Rightarrow> string" where
  "py_str PNone = ''None''"
| "py_str (PStr s) = s"
| "py_str (PInt i) = (if i < 0 then CHR ''-'' # str_nat (nat (- i)) else str_nat (nat i))"


definition is_space :: "char \<Rightarrow> bool" where
  "is_space c = (c \<in> set [CHR 0x09, CHR 0x0A, CHR 0x0B, CHR 0x0C, CHR 0x0D,
                            CHR 0x1C, CHR 0x1D, CHR 0x1E, CHR 0x1F, CHR 0x20])"

definition strip :: "string \<Rightarrow> string" where
  "strip s = rev (dropWhile is_space (rev (dropWhile is_space s)))"

fun literal_digits :: "string \<Rightarrow> string option" where
  "literal_digits [] = None"
| "literal_digits [c] = (if is_digit c then Some [c] else None)"
| "literal_digits (c # d # cs) =
     (if is_digit c then
        (if d = CHR ''_'' then
           (case cs of [] \<Rightarrow> None | _ # _ \<Rightarrow> map_option ((#) c) (literal_digits cs))
         else map_option ((#) c) (literal_digits (d # cs)))
      else None)"

definition decimal_value :: "string \<Rightarrow> nat" where
  "decimal_value ds = foldl (\<lambda>a c. 10 * a + digit_value c) 0 ds"

definition int_of_str :: "string \<Rightarrow> exn + int" where
  "int_of_str s =
     (case strip s of
        [] \<Rightarrow> Inl ValueError
      | c # r \<Rightarrow>
          if c = CHR ''-'' then
            (case literal_digits r of None \<Rightarrow> Inl ValueError
             | Some ds \<Rightarrow> Inr (- int (decimal_value ds)))
          else if c = CHR ''+'' then
            (case literal_digits r of None \<Rightarrow> Inl ValueError
             | Some ds \<Rightarrow> Inr (int (decimal_value ds)))
          else
            (case literal_digits (c # r) of None \<Rightarrow> Inl ValueError
             | Some ds \<Rightarrow> Inr (int (decimal_value ds))))"

fun py_int :: "pyval \<Rightarrow> exn + int" where
  "py_int PNone = Inl TypeError"
| "py_int (PInt i) = Inr i"
| "py_int (PStr s) = int_of_str s"

section \<open>seller.py: the supplier feed and the Ozon records\<close>

text \<open>
  One row of the supplier spreadsheet, a dict read with \<open>watch.get\<close>. The three keys
  the scripts read are Cyrillic in the source: \<open>Kod\<close> (code), \<open>Kolichestvo\<close>
  (quantity) and \<open>Tsena\<close> (price).
\<close>

record remnant =
  Kod :: pyval
  Kolichestvo :: pyval
  Tsena :: pyval

record ozon_stock =
  stock_offer_id :: string
  stock :: int

record ozon_price =
  auto_action_enabled :: string
  currency_code :: string
  price_offer_id :: string
  old_price :: string
  price :: string

text \<open>
  The quantity rule of both \<open>create_stocks\<close> (seller.py lines 203-209, market.py lines
  179-185): the comparison is made on \<open>str\<close> of the field, the conversion on the field.
\<close>

definition stock_of_count :: "pyval \<Rightarrow> exn + int" where
  "stock_of_count q =
     (let count = py_str q in
      if count = ''>10'' then Inr 100
      else if count = ''1'' then Inr 0
      else py_int q)"

text \<open>
  The first loop of \<open>create_stocks\<close>, which is the same in both files but for the dict
  it appends (\<open>mk\<close>). \<open>offer_ids\<close> is the caller's list, changed in place by
  \<open>offer_ids.remove\<close> (the first occurrence goes), so it is returned.
\<close>

fun stocks_loop ::
  "(string \<Rightarrow> int \<Rightarrow> 'r) \<Rightarrow> remnant list \<Rightarrow> string list \<Rightarrow> 'r list \<Rightarrow> exn + ('r list \<times> string list)"
where
  "stocks_loop mk [] offer_ids stocks = Inr (stocks, offer_ids)"
| "stocks_loop mk (watch # rest) offer_ids stocks =
     (if py_str (Kod watch) \<in> set offer_ids then
        (case stock_of_count (Kolichestvo watch) of
           Inl e \<Rightarrow> Inl e
         | Inr st \<Rightarrow>
             stocks_loop mk rest (remove1 (py_str (Kod watch)) offer_ids)
               (stocks @ [mk (py_str (Kod watch)) st]))
      else stocks_loop mk rest offer_ids stocks)"

text \<open>
  \<open>create_stocks\<close> with its second loop. The result is the returned list together
  with the caller's \<open>offer_ids\<close> as the call leaves it.
\<close>

definition create_stocks_with ::
  "(string \<Rightarrow> int \<Rightarrow> 'r) \<Rightarrow> remnant list \<Rightarrow> string list \<Rightarrow> exn + ('r list \<times> string list)"
where
  "create_stocks_with mk watch_remnants offer_ids =
     (case stocks_loop mk watch_remnants offer_ids [] of
        Inl e \<Rightarrow> Inl e
      | Inr (stocks, offer_ids') \<Rightarrow> Inr (stocks @ map (\<lambda>offer_id. mk offer_id 0) offer_ids', offer_ids'))"

definition ozon_stock_dict :: "string \<Rightarrow> int \<Rightarrow> ozon_stock" where
  "ozon_stock_dict oid st = \<lparr>stock_offer_id = oid, stock = st\<rparr>"

definition seller_create_stocks ::
  "remnant list \<Rightarrow> string list \<Rightarrow> exn + (ozon_stock list \<times> string list)"
where
  "seller_create_stocks = create_stocks_with ozon_stock_dict"

text \<open>\<open>price.split(".")\<close>: the pieces between the dots, never an empty list.\<close>

fun py_split :: "char \<Rightarrow> string \<Rightarrow> string list" where
  "py_split sep [] = [[]]"
| "py_split sep (c # cs) =
     (if c = sep then [] # py_split sep cs
      else (case py_split sep cs of
              [] \<Rightarrow> [[c]]
            | p # ps \<Rightarrow> (c # p) # ps))"

text \<open>\<open>re.sub("[^0-9]", "", s)\<close>: every character outside 0-9 is replaced by nothing.\<close>

definition re_sub_non_digits :: "string \<Rightarrow> string" where
  "re_sub_non_digits s = concat (map (\<lambda>c. if is_digit c then [c] else []) s)"

definition price_conversion :: "string \<Rightarrow> string" where
  "price_conversion p =
     (case py_split (CHR ''.'') p of
        [] \<Rightarrow> re_sub_non_digits []
      | first # _ \<Rightarrow> re_sub_non_digits first)"

text \<open>
  \<open>price_conversion(watch.get(...))\<close>: a value that is not a string has no \<open>split\<close>.
\<close>

fun price_conversion_of :: "pyval \<Rightarrow> exn + string" where
  "price_conversion_of (PStr s) = Inr (price_conversion s)"
| "price_conversion_of _ = Inl AttributeError"

fun seller_create_prices :: "remnant list \<Rightarrow> string list \<Rightarrow> exn + ozon_price list" where
  "seller_create_prices [] offer_ids = Inr []"
| "seller_create_prices (watch # rest) offer_ids =
     (if py_str (Kod watch) \<in> set offer_ids then
        (case price_conversion_of (Tsena watch) of
           Inl e \<Rightarrow> Inl e
         | Inr p \<Rightarrow>
             (case seller_create_prices rest offer_ids of
                Inl e \<Rightarrow> Inl e
              | Inr prices \<Rightarrow>
                  Inr (\<lparr>auto_action_enabled = ''UNKNOWN'', currency_code = ''RUB'',
                        price_offer_id = py_str (Kod watch), old_price = ''0'',
                        price = p\<rparr> # prices)))
      else seller_create_prices rest offer_ids)"

text \<open>
  \<open>divide\<close>: \<open>range(0, len(lst), n)\<close> raises \<open>ValueError\<close> for a zero step and is empty
  for a negative one; the slice \<open>lst[i : i + n]\<close> stops at the end of the list.
\<close>

function divide_from :: "'a list \<Rightarrow> nat \<Rightarrow> nat \<Rightarrow> 'a list list" where
  "divide_from lst n i =
     (if i < length lst \<and> 0 < n then take n (drop i lst) # divide_from lst n (i + n) else [])"
  by pat_completeness auto
termination
  by (relation "measure (\<lambda>(lst, n, i). length lst - i)") auto

declare divide_from.simps [simp del]

definition divide_list :: "'a list \<Rightarrow> int \<Rightarrow> exn + 'a list list" where
  "divide_list lst n =
     (if n = 0 then Inl ValueError
      else if n < 0 then Inr []
      else Inr (divide_from lst (nat n) 0))"

text \<open>
  \<open>for some in list(divide(xs, n)): update(some, ...)\<close>: the batches go out one by one;
  \<open>raise_for_status\<close> of the \<open>k\<close>-th call may raise, which ends the loop. Returned:
  the exception, if any, and the batches that were sent.
\<close>

fun send_batches ::
  "(nat \<Rightarrow> 'b list \<Rightarrow> exn option) \<Rightarrow> nat \<Rightarrow> 'b list list \<Rightarrow> exn option \<times> 'b list list"
where
  "send_batches reply k [] = (None, [])"
| "send_batches reply k (some # rest) =
     (case reply k some of
        Some e \<Rightarrow> (Some e, [some])
      | None \<Rightarrow> (case send_batches reply (Suc k) rest of (r, sent) \<Rightarrow> (r, some # sent)))"

subsection \<open>The Ozon API as seller.py sees it\<close>

record ozon_product =
  offer_id :: string

record ozon_result =
  result_items :: "ozon_product list"
  result_total :: int
  result_last_id :: string

text \<open>
  What the outside answers during one run: the \<open>k\<close>-th product-list request (sent with
  \<open>last_id\<close>), the download of the supplier file, and the \<open>k\<close>-th stock and price
  update. An answer \<open>Inl e\<close> stands for any way the call raises: no connection, a
  status that \<open>raise_for_status\<close> rejects, a body without the expected keys. The
  credentials are fixed for a run and left out.
\<close>

record seller_world =
  product_list_reply :: "nat \<Rightarrow> string \<Rightarrow> exn + ozon_result"
  download_reply :: "exn + remnant list"
  stocks_reply :: "nat \<Rightarrow> ozon_stock list \<Rightarrow> exn option"
  prices_reply :: "nat \<Rightarrow> ozon_price list \<Rightarrow> exn option"

definition seller_get_product_list :: "seller_world \<Rightarrow> nat \<Rightarrow> string \<Rightarrow> exn + ozon_result" where
  "seller_get_product_list w k last_id = product_list_reply w k last_id"

text \<open>
  The \<open>while True\<close> loop of \<open>get_offer_ids\<close>; \<open>k\<close> counts the requests made. The loop
  may never end, which is the value \<open>None\<close>.

  In both files the docstring of \<open>get_offer_ids\<close> (and of two more functions of
  market.py) starts one column deeper than the statements that follow it, which Python
  refuses when it compiles the file (\<open>IndentationError\<close>). The model is of the
  function bodies as their statements are indented.
\<close>

partial_function (option) seller_get_products ::
  "seller_world \<Rightarrow> nat \<Rightarrow> string \<Rightarrow> ozon_product list \<Rightarrow> ((exn + ozon_product list) \<times> nat) option"
where
  "seller_get_products w k last_id product_list =
     (case seller_get_product_list w k last_id of
        Inl e \<Rightarrow> Some (Inl e, Suc k)
      | Inr some_prod \<Rightarrow>
          if result_total some_prod = int (length (product_list @ result_items some_prod))
          then Some (Inr (product_list @ result_items some_prod), Suc k)
          else seller_get_products w (Suc k) (result_last_id some_prod)
                 (product_list @ result_items some_prod))"

declare seller_get_products.simps [code]

definition seller_get_offer_ids ::
  "seller_world \<Rightarrow> nat \<Rightarrow> ((exn + string list) \<times> nat) option"
where
  "seller_get_offer_ids w k =
     (case seller_get_products w k [] [] of
        None \<Rightarrow> None
      | Some (Inl e, k') \<Rightarrow> Some (Inl e, k')
      | Some (Inr product_list, k') \<Rightarrow> Some (Inr (map offer_id product_list), k'))"

text \<open>
  The pages \<open>ps\<close> are what the store serves, in this order, to a client that starts at
  request \<open>k\<close> with \<open>last_id\<close> and follows each page's \<open>last_id\<close>.
\<close>

fun seller_serves :: "seller_world \<Rightarrow> nat \<Rightarrow> string \<Rightarrow> ozon_result list \<Rightarrow> bool" where
  "seller_serves w k last_id [] = True"
| "seller_serves w k last_id (p # ps) =
     (seller_get_product_list w k last_id = Inr p \<and> seller_serves w (Suc k) (result_last_id p) ps)"

text \<open>
  The page stream signals its end at its last page and not before: the reported total
  equals the number of items accumulated so far (\<open>n\<close> items came before \<open>ps\<close>).
\<close>

fun ozon_ends :: "nat \<Rightarrow> ozon_result list \<Rightarrow> bool" where
  "ozon_ends n [] = False"
| "ozon_ends n [p] = (result_total p = int (n + length (result_items p)))"
| "ozon_ends n (p # q # ps) =
     (result_total p \<noteq> int (n + length (result_items p))
      \<and> ozon_ends (n + length (result_items p)) (q # ps))"

subsection \<open>seller.py: upload routines and main\<close>

definition seller_upload_prices ::
  "seller_world \<Rightarrow> remnant list \<Rightarrow> ((exn + ozon_price list) \<times> ozon_price list list) option"
where
  "seller_upload_prices w watch_remnants =
     (case seller_get_offer_ids w 0 of
        None \<Rightarrow> None
      | Some (Inl e, _) \<Rightarrow> Some (Inl e, [])
      | Some (Inr offer_ids, _) \<Rightarrow>
          (case seller_create_prices watch_remnants offer_ids of
             Inl e \<Rightarrow> Some (Inl e, [])
           | Inr prices \<Rightarrow>
               (case divide_list prices 1000 of
                  Inl e \<Rightarrow> Some (Inl e, [])
                | Inr chunks \<Rightarrow>
                    (case send_batches (prices_reply w) 0 chunks of
                       (Some e, sent) \<Rightarrow> Some (Inl e, sent)
                     | (None, sent) \<Rightarrow> Some (Inr prices, sent)))))"

definition seller_upload_stocks ::
  "seller_world \<Rightarrow> remnant list
     \<Rightarrow> ((exn + ozon_stock list \<times> ozon_stock list) \<times> ozon_stock list list) option"
where
  "seller_upload_stocks w watch_remnants =
     (case seller_get_offer_ids w 0 of
        None \<Rightarrow> None
      | Some (Inl e, _) \<Rightarrow> Some (Inl e, [])
      | Some (Inr offer_ids, _) \<Rightarrow>
          (case seller_create_stocks watch_remnants offer_ids of
             Inl e \<Rightarrow> Some (Inl e, [])
           | Inr (stocks, _) \<Rightarrow>
               (case divide_list stocks 100 of
                  Inl e \<Rightarrow> Some (Inl e, [])
                | Inr chunks \<Rightarrow>
                    (case send_batches (stocks_reply w) 0 chunks of
                       (Some e, sent) \<Rightarrow> Some (Inl e, sent)
                     | (None, sent) \<Rightarrow>
                         Some (Inr (filter (\<lambda>s. stock s \<noteq> 0) stocks, stocks), sent)))))"



text \<open>
  The body of the \<open>try\<close> of seller.py's \<open>main\<close>: the exception it ends with, if any,
  and the stock and price batches sent. \<open>create_prices\<close> gets the list object that
  \<open>create_stocks\<close> has changed.
\<close>

definition seller_block ::
  "seller_world \<Rightarrow> (exn option \<times> ozon_stock list list \<times> ozon_price list list) option"
where
  "seller_block w =
     (case seller_get_offer_ids w 0 of
        None \<Rightarrow> None
      | Some (Inl e, _) \<Rightarrow> Some (Some e, [], [])
      | Some (Inr offer_ids, _) \<Rightarrow>
          (case download_reply w of
             Inl e \<Rightarrow> Some (Some e, [], [])
           | Inr watch_remnants \<Rightarrow>
               (case seller_create_stocks watch_remnants offer_ids of
                  Inl e \<Rightarrow> Some (Some e, [], [])
                | Inr (stocks, offer_ids') \<Rightarrow>
                    (case divide_list stocks 100 of
                       Inl e \<Rightarrow> Some (Some e, [], [])
                     | Inr chunks \<Rightarrow>
                         (case send_batches (stocks_reply w) 0 chunks of
                            (Some e, sent) \<Rightarrow> Some (Some e, sent, [])
                          | (None, sent) \<Rightarrow>
                              (case seller_create_prices watch_remnants offer_ids' of
                                 Inl e \<Rightarrow> Some (Some e, sent, [])
                               | Inr prices \<Rightarrow>
                                   (case divide_list prices 900 of
                                      Inl e \<Rightarrow> Some (Some e, sent, [])
                                    | Inr pchunks \<Rightarrow>
                                        (case send_batches (prices_reply w) 0 pchunks of
                                           (r, psent) \<Rightarrow> Some (r, sent, psent)))))))))"


section \<open>market.py\<close>

record market_item =
  count :: int
  item_type :: string
  updatedAt :: string

record market_stock =
  sku :: string
  warehouseId :: string
  items :: "market_item list"

text \<open>
  The price dict of market.py: key \<open>id\<close> and, under key \<open>price\<close>, the keys \<open>value\<close> and
  \<open>currencyId\<close>.
\<close>

record market_price =
  market_id :: string
  price_value :: int
  currencyId :: string

definition market_stock_dict :: "string \<Rightarrow> string \<Rightarrow> string \<Rightarrow> int \<Rightarrow> market_stock" where
  "market_stock_dict warehouse_id date oid st =
     \<lparr>sku = oid, warehouseId = warehouse_id,
      items = [\<lparr>count = st, item_type = ''FIT'', updatedAt = date\<rparr>]\<rparr>"

text \<open>\<open>date\<close> is the clock, read once at the start of the call.\<close>

definition market_create_stocks ::
  "remnant list \<Rightarrow> string list \<Rightarrow> string \<Rightarrow> string \<Rightarrow> exn + (market_stock list \<times> string list)"
where
  "market_create_stocks watch_remnants offer_ids warehouse_id date =
     create_stocks_with (market_stock_dict warehouse_id date) watch_remnants offer_ids"

fun market_create_prices :: "remnant list \<Rightarrow> string list \<Rightarrow> exn + market_price list" where
  "market_create_prices [] offer_ids = Inr []"
| "market_create_prices (watch # rest) offer_ids =
     (if py_str (Kod watch) \<in> set offer_ids then
        (case price_conversion_of (Tsena watch) of
           Inl e \<Rightarrow> Inl e
         | Inr p \<Rightarrow>
             (case int_of_str p of
                Inl e \<Rightarrow> Inl e
              | Inr v \<Rightarrow>
                  (case market_create_prices rest offer_ids of
                     Inl e \<Rightarrow> Inl e
                   | Inr prices \<Rightarrow>
                       Inr (\<lparr>market_id = py_str (Kod watch), price_value = v,
                             currencyId = ''RUR''\<rparr> # prices))))
      else market_create_prices rest offer_ids)"

record market_entry =
  shopSku :: string

text \<open>\<open>nextPageToken\<close> is \<open>None\<close> when the key is missing or null.\<close>

record market_result =
  offerMappingEntries :: "market_entry list"
  nextPageToken :: "string option"

text \<open>
  The outside for market.py. Requests are answered per campaign, and numbered from the
  start of each \<open>get_offer_ids\<close> call and of each batch loop; \<open>utcnow\<close> is the clock at
  the \<open>k\<close>-th call of \<open>create_stocks\<close>.
\<close>

record market_world =
  entries_reply :: "string \<Rightarrow> nat \<Rightarrow> string \<Rightarrow> exn + market_result"
  stock_file :: "exn + remnant list"
  skus_reply :: "string \<Rightarrow> nat \<Rightarrow> market_stock list \<Rightarrow> exn option"
  offers_reply :: "string \<Rightarrow> nat \<Rightarrow> market_price list \<Rightarrow> exn option"
  utcnow :: "nat \<Rightarrow> string"

definition market_get_product_list ::
  "market_world \<Rightarrow> string \<Rightarrow> nat \<Rightarrow> string \<Rightarrow> exn + market_result"
where
  "market_get_product_list w campaign_id k page = entries_reply w campaign_id k page"

text \<open>\<open>not page\<close>: the token is \<open>None\<close> or the empty string.\<close>

definition falsy :: "string option \<Rightarrow> bool" where
  "falsy page = (case page of None \<Rightarrow> True | Some t \<Rightarrow> t = [])"

partial_function (option) market_get_products ::
  "market_world \<Rightarrow> string \<Rightarrow> nat \<Rightarrow> string \<Rightarrow> market_entry list
     \<Rightarrow> ((exn + market_entry list) \<times> nat) option"
where
  "market_get_products w campaign_id k page product_list =
     (case market_get_product_list w campaign_id k page of
        Inl e \<Rightarrow> Some (Inl e, Suc k)
      | Inr some_prod \<Rightarrow>
          (case nextPageToken some_prod of
             None \<Rightarrow> Some (Inr (product_list @ offerMappingEntries some_prod), Suc k)
           | Some page' \<Rightarrow>
               if page' = [] then Some (Inr (product_list @ offerMappingEntries some_prod), Suc k)
               else market_get_products w campaign_id (Suc k) page'
                      (product_list @ offerMappingEntries some_prod)))"

declare market_get_products.simps [code]

definition market_get_offer_ids ::
  "market_world \<Rightarrow> string \<Rightarrow> nat \<Rightarrow> ((exn + string list) \<times> nat) option"
where
  "market_get_offer_ids w campaign_id k =
     (case market_get_products w campaign_id k [] [] of
        None \<Rightarrow> None
      | Some (Inl e, k') \<Rightarrow> Some (Inl e, k')
      | Some (Inr product_list, k') \<Rightarrow> Some (Inr (map shopSku product_list), k'))"

text \<open>
  The pages \<open>ps\<close> are what the campaign serves, in this order, to a client that starts
  at request \<open>k\<close> with token \<open>page\<close> and follows each page's \<open>nextPageToken\<close>; a page
  without a token has no successor.
\<close>

fun market_serves ::
  "market_world \<Rightarrow> string \<Rightarrow> nat \<Rightarrow> string \<Rightarrow> market_result list \<Rightarrow> bool"
where
  "market_serves w c k page [] = True"
| "market_serves w c k page (p # ps) =
     (market_get_product_list w c k page = Inr p
      \<and> (case nextPageToken p of
            None \<Rightarrow> ps = []
          | Some t \<Rightarrow> if t = [] then ps = [] else market_serves w c (Suc k) t ps))"

definition market_upload_prices ::
  "market_world \<Rightarrow> remnant list \<Rightarrow> string
     \<Rightarrow> ((exn + market_price list) \<times> market_price list list) option"
where
  "market_upload_prices w watch_remnants campaign_id =
     (case market_get_offer_ids w campaign_id 0 of
        None \<Rightarrow> None
      | Some (Inl e, _) \<Rightarrow> Some (Inl e, [])
      | Some (Inr offer_ids, _) \<Rightarrow>
          (case market_create_prices watch_remnants offer_ids of
             Inl e \<Rightarrow> Some (Inl e, [])
           | Inr prices \<Rightarrow>
               (case divide_list prices 500 of
                  Inl e \<Rightarrow> Some (Inl e, [])
                | Inr chunks \<Rightarrow>
                    (case send_batches (offers_reply w campaign_id) 0 chunks of
                       (Some e, sent) \<Rightarrow> Some (Inl e, sent)
                     | (None, sent) \<Rightarrow> Some (Inr prices, sent)))))"

text \<open>
  \<open>upload_stocks\<close>; \<open>not_empty\<close> reads \<open>items[0]\<close>, and every record built by
  \<open>create_stocks\<close> has exactly one item.
\<close>

definition market_upload_stocks ::
  "market_world \<Rightarrow> remnant list \<Rightarrow> string \<Rightarrow> string
     \<Rightarrow> ((exn + market_stock list \<times> market_stock list) \<times> market_stock list list) option"
where
  "market_upload_stocks w watch_remnants campaign_id warehouse_id =
     (case market_get_offer_ids w campaign_id 0 of
        None \<Rightarrow> None
      | Some (Inl e, _) \<Rightarrow> Some (Inl e, [])
      | Some (Inr offer_ids, _) \<Rightarrow>
          (case market_create_stocks watch_remnants offer_ids warehouse_id (utcnow w 0) of
             Inl e \<Rightarrow> Some (Inl e, [])
           | Inr (stocks, _) \<Rightarrow>
               (case divide_list stocks 2000 of
                  Inl e \<Rightarrow> Some (Inl e, [])
                | Inr chunks \<Rightarrow>
                    (case send_batches (skus_reply w campaign_id) 0 chunks of
                       (Some e, sent) \<Rightarrow> Some (Inl e, sent)
                     | (None, sent) \<Rightarrow>
                         Some (Inr (filter (\<lambda>s. (case items s of [] \<Rightarrow> True
                                                   | it # _ \<Rightarrow> count it \<noteq> 0)) stocks, stocks),
                               sent)))))"

text \<open>
  One half of the \<open>try\<close> of market.py's \<open>main\<close> (FBS, then DBS): offer ids, stocks, the
  stock batches. The call \<open>upload_prices(...)\<close> that follows builds a coroutine that is
  never awaited, so nothing of its body runs. \<open>k\<close> is the number of the \<open>create_stocks\<close>
  call.
\<close>

definition market_sync ::
  "market_world \<Rightarrow> remnant list \<Rightarrow> string \<Rightarrow> string \<Rightarrow> nat
     \<Rightarrow> (exn option \<times> market_stock list list) option"
where
  "market_sync w watch_remnants campaign_id warehouse_id k =
     (case market_get_offer_ids w campaign_id 0 of
        None \<Rightarrow> None
      | Some (Inl e, _) \<Rightarrow> Some (Some e, [])
      | Some (Inr offer_ids, _) \<Rightarrow>
          (case market_create_stocks watch_remnants offer_ids warehouse_id (utcnow w k) of
             Inl e \<Rightarrow> Some (Some e, [])
           | Inr (stocks, _) \<Rightarrow>
               (case divide_list stocks 2000 of
                  Inl e \<Rightarrow> Some (Some e, [])
                | Inr chunks \<Rightarrow> Some (send_batches (skus_reply w campaign_id) 0 chunks))))"

definition market_block ::
  "market_world \<Rightarrow> remnant list \<Rightarrow> string \<Rightarrow> string \<Rightarrow> string \<Rightarrow> string
     \<Rightarrow> (exn option \<times> market_stock list list) option"
where
  "market_block w watch_remnants campaign_fbs_id campaign_dbs_id warehouse_fbs_id warehouse_dbs_id =
     (case market_sync w watch_remnants campaign_fbs_id warehouse_fbs_id 0 of
        None \<Rightarrow> None
      | Some (Some e, sent) \<Rightarrow> Some (Some e, sent)
      | Some (None, sent) \<Rightarrow>
          (case market_sync w watch_remnants campaign_dbs_id warehouse_dbs_id 1 of
             None \<Rightarrow> None
           | Some (r, sent') \<Rightarrow> Some (r, sent @ sent')))"


section \<open>Notions used in the statements\<close>

text \<open>The codes of the supplier rows, as \<open>create_stocks\<close> compares them.\<close>

definition remnant_codes :: "remnant list \<Rightarrow> string list" where
  "remnant_codes watch_remnants = map (\<lambda>watch. py_str (Kod watch)) watch_remnants"


text \<open>A one-row supplier feed, after the examples of the docstrings.\<close>

definition example_remnants :: "remnant list" where
  "example_remnants =
     [\<lparr>Kod = PStr ''111'', Kolichestvo = PStr ''5'', Tsena = PStr ''5'990.00 rub.''\<rparr>]"


text \<open>
  A store with the two products 111 and 222 on one page, a supplier file with the row
  of \<open>example_remnants\<close>, and update calls that succeed.
\<close>

definition example_seller_world :: seller_world where
  "example_seller_world =
     \<lparr>product_list_reply = (\<lambda>k last_id.
          Inr \<lparr>result_items = [\<lparr>offer_id = ''111''\<rparr>, \<lparr>offer_id = ''222''\<rparr>],
               result_total = 2, result_last_id = ''x''\<rparr>),
      download_reply = Inr example_remnants,
      stocks_reply = (\<lambda>k batch. None),
      prices_reply = (\<lambda>k batch. None)\<rparr>"

text \<open>
  A campaign with the products 111 and 222 on two pages, the supplier file of
  \<open>example_remnants\<close>, a fixed clock, and update calls that succeed.
\<close>

definition example_market_world :: market_world where
  "example_market_world =
     \<lparr>entries_reply = (\<lambda>campaign_id k page.
          if page = [] then
            Inr \<lparr>offerMappingEntries = [\<lparr>shopSku = ''111''\<rparr>], nextPageToken = Some ''p2''\<rparr>
          else Inr \<lparr>offerMappingEntries = [\<lparr>shopSku = ''222''\<rparr>], nextPageToken = None\<rparr>),
      stock_file = Inr example_remnants,
      skus_reply = (\<lambda>campaign_id k batch. None),
      offers_reply = (\<lambda>campaign_id k batch. None),
      utcnow = (\<lambda>k. ''d1'')\<rparr>"

text \<open>The pages these two serve.\<close>

definition example_ozon_pages :: "ozon_result list" where
  "example_ozon_pages =
     [\<lparr>result_items = [\<lparr>offer_id = ''111''\<rparr>, \<lparr>offer_id = ''222''\<rparr>],
       result_total = 2, result_last_id = ''x''\<rparr>]"

definition example_market_pages :: "market_result list" where
  "example_market_pages =
     [\<lparr>offerMappingEntries = [\<lparr>shopSku = ''111''\<rparr>], nextPageToken = Some ''p2''\<rparr>,
      \<lparr>offerMappingEntries = [\<lparr>shopSku = ''222''\<rparr>], nextPageToken = None\<rparr>]"






text \<open>A store that reports three products and serves two on every page.\<close>

definition overshoot_seller_world :: seller_world where
  "overshoot_seller_world =
     example_seller_world\<lparr>product_list_reply := (\<lambda>k last_id.
        Inr \<lparr>result_items = [\<lparr>offer_id = ''111''\<rparr>, \<lparr>offer_id = ''222''\<rparr>],
             result_total = 3, result_last_id = ''x''\<rparr>)\<rparr>"

section \<open>Batching\<close>

lemma divide_from_concat: "0 < n \<Longrightarrow> concat (divide_from lst n i) = drop i lst"
proof (induction lst n i rule: divide_from.induct)
  case (1 lst n i)
  show ?case
  proof (cases "i < length lst")
    case True
    have "concat (divide_from lst n i) = take n (drop i lst) @ concat (divide_from lst n (i + n))"
      using True "1.prems" by (subst divide_from.simps) simp
    also have "\<dots> = take n (drop i lst) @ drop (i + n) lst"
      using "1.IH" True "1.prems" by simp
    also have "\<dots> = drop i lst"
      by (metis add.commute append_take_drop_id drop_drop)
    finally show ?thesis .
  next
    case False
    then show ?thesis by (subst divide_from.simps) simp
  qed
qed

section \<open>Reconciliation\<close>





lemma count_list_remove1:
  "count_list (remove1 c xs) x = (if x = c \<and> c \<in> set xs then count_list xs x - 1 else count_list xs x)"
  by (induction xs) auto

lemma stocks_loop_unmatched:
  assumes mk: "\<And>oid st. key (mk oid st) = oid"
  shows "stocks_loop mk rs ids acc = Inr (stocks, ids') \<Longrightarrow>
    (\<exists>m. stocks = acc @ m \<and> set (map key m) \<subseteq> set (remnant_codes rs))
    \<and> (\<forall>x. x \<notin> set (remnant_codes rs) \<longrightarrow> count_list ids' x = count_list ids x)"
proof (induction rs arbitrary: ids acc)
  case Nil
  then show ?case by simp
next
  case (Cons w rest)
  let ?c = "py_str (Kod w)"
  show ?case
  proof (cases "?c \<in> set ids")
    case False
    with Cons.prems have run: "stocks_loop mk rest ids acc = Inr (stocks, ids')" by simp
    from Cons.IH [OF run] obtain m where
      m: "stocks = acc @ m" "set (map key m) \<subseteq> set (remnant_codes rest)"
      and cnt: "\<forall>x. x \<notin> set (remnant_codes rest) \<longrightarrow> count_list ids' x = count_list ids x"
      by blast
    have b: "set (map key m) \<subseteq> set (remnant_codes (w # rest))"
      using m(2) by (auto simp: remnant_codes_def)
    have c: "\<forall>x. x \<notin> set (remnant_codes (w # rest)) \<longrightarrow> count_list ids' x = count_list ids x"
      using cnt by (simp add: remnant_codes_def)
    show ?thesis using m(1) b c by blast
  next
    case True
    with Cons.prems obtain st where
      run: "stocks_loop mk rest (remove1 ?c ids) (acc @ [mk ?c st]) = Inr (stocks, ids')"
      by (auto split: sum.splits)
    from Cons.IH [OF run] obtain m where
      m: "stocks = (acc @ [mk ?c st]) @ m" "set (map key m) \<subseteq> set (remnant_codes rest)"
      and cnt: "\<forall>x. x \<notin> set (remnant_codes rest) \<longrightarrow> count_list ids' x = count_list (remove1 ?c ids) x"
      by blast
    have a: "stocks = acc @ (mk ?c st # m)" using m(1) by simp
    have b: "set (map key (mk ?c st # m)) \<subseteq> set (remnant_codes (w # rest))"
      using m(2) mk by (auto simp: remnant_codes_def)
    have c: "\<forall>x. x \<notin> set (remnant_codes (w # rest)) \<longrightarrow> count_list ids' x = count_list ids x"
      using cnt by (auto simp: remnant_codes_def count_list_remove1)
    show ?thesis using a b c by blast
  qed
qed

lemma filter_map_const:
  assumes "\<And>i. key (f i) = i"
  shows "filter (\<lambda>r. key r = x) (map f xs) = replicate (count_list xs x) (f x)"
  using assms by (induction xs) auto

lemma create_stocks_with_unmatched:
  assumes mk: "\<And>oid st. key (mk oid st) = oid"
    and run: "create_stocks_with mk rs ids = Inr (stocks, ids')"
    and x: "x \<notin> set (remnant_codes rs)"
  shows "filter (\<lambda>r. key r = x) stocks = replicate (count_list ids x) (mk x 0)"
proof -
  from run obtain st1 where loop: "stocks_loop mk rs ids [] = Inr (st1, ids')"
    and stocks: "stocks = st1 @ map (\<lambda>i. mk i 0) ids'"
    by (auto simp: create_stocks_with_def split: sum.splits)
  from stocks_loop_unmatched [of key mk, OF mk loop] have
    keys: "set (map key st1) \<subseteq> set (remnant_codes rs)"
    and cnt: "count_list ids' x = count_list ids x"
    using x by auto
  have "filter (\<lambda>r. key r = x) st1 = []"
    using keys x by (auto simp: filter_empty_conv)
  moreover have "filter (\<lambda>r. key r = x) (map (\<lambda>i. mk i 0) ids') = replicate (count_list ids' x) (mk x 0)"
    by (rule filter_map_const) (simp add: mk)
  ultimately show ?thesis using stocks cnt by simp
qed






text \<open>
  C2. For every offer id of the list that matches no supplier code, the records that a
  returning \<open>create_stocks\<close> gives for that id are zero-stock records (\<open>stock = 0\<close> for
  Ozon, \<open>items[0].count = 0\<close> for Yandex.Market), one for each occurrence of the id in
  the list: at least one, and exactly one when the list has no duplicates.
\<close>

theorem create_stocks_zero_unmatched:
  assumes "x \<in> set offer_ids" and "x \<notin> set (remnant_codes watch_remnants)"
  shows "(seller_create_stocks watch_remnants offer_ids = Inr (stocks, ids') \<longrightarrow>
            filter (\<lambda>r. stock_offer_id r = x) stocks
              = replicate (count_list offer_ids x) \<lparr>stock_offer_id = x, stock = 0\<rparr>)
       \<and> (market_create_stocks watch_remnants offer_ids warehouse_id date = Inr (mstocks, mids') \<longrightarrow>
            filter (\<lambda>r. sku r = x) mstocks
              = replicate (count_list offer_ids x)
                  \<lparr>sku = x, warehouseId = warehouse_id,
                   items = [\<lparr>count = 0, item_type = ''FIT'', updatedAt = date\<rparr>]\<rparr>)
       \<and> 0 < count_list offer_ids x
       \<and> (distinct offer_ids \<longrightarrow> count_list offer_ids x = 1)"
proof (intro conjI impI)
  assume "seller_create_stocks watch_remnants offer_ids = Inr (stocks, ids')"
  then have run: "create_stocks_with ozon_stock_dict watch_remnants offer_ids = Inr (stocks, ids')"
    by (simp add: seller_create_stocks_def)
  have "filter (\<lambda>r. stock_offer_id r = x) stocks
      = replicate (count_list offer_ids x) (ozon_stock_dict x 0)"
    by (rule create_stocks_with_unmatched [OF _ run assms(2)]) (simp add: ozon_stock_dict_def)
  then show "filter (\<lambda>r. stock_offer_id r = x) stocks
              = replicate (count_list offer_ids x) \<lparr>stock_offer_id = x, stock = 0\<rparr>"
    by (simp add: ozon_stock_dict_def)
next
  assume "market_create_stocks watch_remnants offer_ids warehouse_id date = Inr (mstocks, mids')"
  then have run: "create_stocks_with (market_stock_dict warehouse_id date) watch_remnants offer_ids
      = Inr (mstocks, mids')"
    by (simp add: market_create_stocks_def)
  have "filter (\<lambda>r. sku r = x) mstocks
      = replicate (count_list offer_ids x) (market_stock_dict warehouse_id date x 0)"
    by (rule create_stocks_with_unmatched [OF _ run assms(2)]) (simp add: market_stock_dict_def)
  then show "filter (\<lambda>r. sku r = x) mstocks
              = replicate (count_list offer_ids x)
                  \<lparr>sku = x, warehouseId = warehouse_id,
                   items = [\<lparr>count = 0, item_type = ''FIT'', updatedAt = date\<rparr>]\<rparr>"
    by (simp add: market_stock_dict_def)
next
  have "count_list offer_ids x \<noteq> 0" using assms(1) by (simp add: count_list_0_iff)
  then show "0 < count_list offer_ids x" by simp
next
  assume "distinct offer_ids"
  then show "count_list offer_ids x = 1" using assms(1) by (induction offer_ids) auto
qed

theorem create_stocks_zero_unmatched_witness:
  "''222'' \<in> set [''111'', ''222''] \<and> ''222'' \<notin> set (remnant_codes example_remnants)
   \<and> seller_create_stocks example_remnants [''111'', ''222'']
       = Inr ([\<lparr>stock_offer_id = ''111'', stock = 5\<rparr>, \<lparr>stock_offer_id = ''222'', stock = 0\<rparr>],
              [''222''])
   \<and> market_create_stocks example_remnants [''111'', ''222''] ''w1'' ''d1''
       = Inr ([\<lparr>sku = ''111'', warehouseId = ''w1'',
                 items = [\<lparr>count = 5, item_type = ''FIT'', updatedAt = ''d1''\<rparr>]\<rparr>,
               \<lparr>sku = ''222'', warehouseId = ''w1'',
                 items = [\<lparr>count = 0, item_type = ''FIT'', updatedAt = ''d1''\<rparr>]\<rparr>],
              [''222''])
   \<and> distinct [''111'', ''222'']
   \<and> count_list [''111'', ''222''] ''222'' = 1"
proof -
  have a: "''222'' \<in> set [''111'', ''222'']" by simp
  have b: "''222'' \<notin> set (remnant_codes example_remnants)"
    by (simp add: remnant_codes_def example_remnants_def)
  have d: "distinct [''111'', ''222'']" by simp
  have e1: "seller_create_stocks example_remnants [''111'', ''222'']
       = Inr ([\<lparr>stock_offer_id = ''111'', stock = 5\<rparr>, \<lparr>stock_offer_id = ''222'', stock = 0\<rparr>],
              [''222''])"
    by code_simp
  have e2: "market_create_stocks example_remnants [''111'', ''222''] ''w1'' ''d1''
       = Inr ([\<lparr>sku = ''111'', warehouseId = ''w1'',
                 items = [\<lparr>count = 5, item_type = ''FIT'', updatedAt = ''d1''\<rparr>]\<rparr>,
               \<lparr>sku = ''222'', warehouseId = ''w1'',
                 items = [\<lparr>count = 0, item_type = ''FIT'', updatedAt = ''d1''\<rparr>]\<rparr>],
              [''222''])"
    by code_simp
  from create_stocks_zero_unmatched [OF a b] a b d e1 e2 show ?thesis by blast
qed






section \<open>Quantities and prices\<close>








lemma py_split_hd: "\<exists>rest. py_split sep s = takeWhile (\<lambda>c. c \<noteq> sep) s # rest"
  by (induction s) (auto split: list.splits)

lemma re_sub_filter: "re_sub_non_digits s = filter is_digit s"
  by (induction s) (auto simp: re_sub_non_digits_def)

lemma price_conversion_eq:
  "price_conversion s = filter is_digit (takeWhile (\<lambda>c. c \<noteq> CHR ''.'') s)"
proof -
  obtain rest where "py_split (CHR ''.'') s = takeWhile (\<lambda>c. c \<noteq> CHR ''.'') s # rest"
    using py_split_hd by blast
  then show ?thesis by (simp add: price_conversion_def re_sub_filter)
qed

lemma is_digit_facts:
  "is_digit c \<Longrightarrow> \<not> is_space c \<and> c \<noteq> CHR ''-'' \<and> c \<noteq> CHR ''+'' \<and> c \<noteq> CHR ''_'' \<and> c \<noteq> CHR ''.''"
  by (auto simp: is_digit_def is_space_def)

lemma literal_digits_all: "s \<noteq> [] \<Longrightarrow> list_all is_digit s \<Longrightarrow> literal_digits s = Some s"
proof (induction s rule: literal_digits.induct)
  case 1
  then show ?case by simp
next
  case (2 c)
  then show ?case by simp
next
  case (3 c d cs)
  then have "d \<noteq> CHR ''_''" using is_digit_facts by auto
  with 3 show ?case by simp
qed

lemma strip_digits: "s \<noteq> [] \<Longrightarrow> list_all is_digit s \<Longrightarrow> strip s = s"
proof -
  assume ne: "s \<noteq> []" and dg: "list_all is_digit s"
  have h: "\<not> is_space (hd s)" using ne dg is_digit_facts by (cases s) auto
  then have a: "dropWhile is_space s = s" using ne by (cases s) auto
  have "\<not> is_space (last s)" using ne dg is_digit_facts by (auto simp: list_all_iff)
  then have "\<not> is_space (hd (rev s))" using ne by (simp add: hd_rev)
  then have "dropWhile is_space (rev s) = rev s" using ne by (cases "rev s") auto
  with a show ?thesis by (simp add: strip_def)
qed

lemma int_of_str_digits:
  assumes "list_all is_digit s"
  shows "int_of_str s = (if s = [] then Inl ValueError else Inr (int (decimal_value s)))"
proof (cases s)
  case Nil
  then show ?thesis by (simp add: int_of_str_def strip_def)
next
  case (Cons c r)
  then have ne: "s \<noteq> []" by simp
  have st: "strip s = c # r" using strip_digits [OF ne assms] Cons by simp
  have c: "c \<noteq> CHR ''-'' \<and> c \<noteq> CHR ''+''" using assms Cons is_digit_facts by auto
  have "literal_digits (c # r) = Some (c # r)" using literal_digits_all [OF ne assms] Cons by simp
  then show ?thesis using st c Cons by (simp add: int_of_str_def)
qed









lemma price_conversion_digits: "list_all is_digit (price_conversion s)"
  by (simp add: price_conversion_eq list_all_iff)

lemma market_create_prices_sound:
  "market_create_prices rs ids = Inr ps \<Longrightarrow> p \<in> set ps \<Longrightarrow>
     \<exists>w\<in>set rs. \<exists>s. Tsena w = PStr s \<and> py_str (Kod w) \<in> set ids
        \<and> market_id p = py_str (Kod w)
        \<and> int_of_str (price_conversion s) = Inr (price_value p)"
proof (induction rs arbitrary: ps)
  case Nil
  then show ?case by simp
next
  case (Cons w rest)
  show ?case
  proof (cases "py_str (Kod w) \<in> set ids")
    case False
    with Cons.prems have "market_create_prices rest ids = Inr ps" by simp
    from Cons.IH [OF this Cons.prems(2)] show ?thesis by auto
  next
    case True
    with Cons.prems obtain s v ps' where
      s: "Tsena w = PStr s" and v: "int_of_str (price_conversion s) = Inr v"
      and r: "market_create_prices rest ids = Inr ps'"
      and ps: "ps = \<lparr>market_id = py_str (Kod w), price_value = v, currencyId = ''RUR''\<rparr> # ps'"
      by (cases "Tsena w") (auto split: sum.splits)
    show ?thesis
    proof (cases "p \<in> set ps'")
      case True
      from Cons.IH [OF r True] show ?thesis by auto
    next
      case False
      with ps Cons.prems(2) have "p = \<lparr>market_id = py_str (Kod w), price_value = v, currencyId = ''RUR''\<rparr>"
        by simp
      then show ?thesis using s v True by auto
    qed
  qed
qed

text \<open>
  C10. For every string, \<open>price_conversion\<close> returns the digits of the part before the
  first dot, in order, and nothing else; a number written as digits, a dot and any
  fraction loses the fraction (no rounding); the docstring example, with the Cyrillic
  unit as UTF-8 bytes, gives \<open>5990\<close>. Every price record of the Yandex.Market
  \<open>create_prices\<close> carries \<open>int()\<close> of that string, its decimal value.
\<close>

theorem price_conversion_truncates:
  "price_conversion s = filter is_digit (takeWhile (\<lambda>c. c \<noteq> CHR ''.'') s)
   \<and> (list_all is_digit ds \<longrightarrow> price_conversion (ds @ CHR ''.'' # frac) = ds)
   \<and> price_conversion (''5'990.00 '' @ [CHR 0xD1, CHR 0x80, CHR 0xD1, CHR 0x83, CHR 0xD0, CHR 0xB1, CHR ''.''])
       = ''5990''
   \<and> (market_create_prices watch_remnants offer_ids = Inr prices \<longrightarrow>
        (\<forall>p\<in>set prices. \<exists>w\<in>set watch_remnants. \<exists>t.
            Tsena w = PStr t \<and> market_id p = py_str (Kod w) \<and> price_conversion t \<noteq> []
          \<and> int_of_str (price_conversion t) = Inr (price_value p)
          \<and> price_value p = int (decimal_value (price_conversion t))))"
proof (intro conjI impI ballI)
  show "price_conversion s = filter is_digit (takeWhile (\<lambda>c. c \<noteq> CHR ''.'') s)"
    by (rule price_conversion_eq)
next
  assume d: "list_all is_digit ds"
  then have "\<forall>c\<in>set ds. c \<noteq> CHR ''.''" using is_digit_facts by (auto simp: list_all_iff)
  then have "takeWhile (\<lambda>c. c \<noteq> CHR ''.'') (ds @ CHR ''.'' # frac) = ds"
    by simp
  then show "price_conversion (ds @ CHR ''.'' # frac) = ds"
    using d by (simp add: price_conversion_eq list_all_iff)
next
  show "price_conversion (''5'990.00 '' @ [CHR 0xD1, CHR 0x80, CHR 0xD1, CHR 0x83, CHR 0xD0, CHR 0xB1, CHR ''.''])
       = ''5990''"
    by code_simp
next
  fix p
  assume run: "market_create_prices watch_remnants offer_ids = Inr prices" and p: "p \<in> set prices"
  from market_create_prices_sound [OF run p] obtain w t where
    w: "w \<in> set watch_remnants" "Tsena w = PStr t" "market_id p = py_str (Kod w)"
    "int_of_str (price_conversion t) = Inr (price_value p)"
    by blast
  have e: "int_of_str (price_conversion t)
      = (if price_conversion t = [] then Inl ValueError
         else Inr (int (decimal_value (price_conversion t))))"
    by (rule int_of_str_digits [OF price_conversion_digits])
  with w(4) have "price_conversion t \<noteq> []" "price_value p = int (decimal_value (price_conversion t))"
    by (auto split: if_splits)
  with w show "\<exists>w\<in>set watch_remnants. \<exists>t.
            Tsena w = PStr t \<and> market_id p = py_str (Kod w) \<and> price_conversion t \<noteq> []
          \<and> int_of_str (price_conversion t) = Inr (price_value p)
          \<and> price_value p = int (decimal_value (price_conversion t))"
    by blast
qed

theorem price_conversion_truncates_witness:
  "list_all is_digit ''111'' \<and> price_conversion (''111'' @ CHR ''.'' # ''99'') = ''111''
   \<and> market_create_prices example_remnants [''111'']
       = Inr [\<lparr>market_id = ''111'', price_value = 5990, currencyId = ''RUR''\<rparr>]
   \<and> (\<exists>w\<in>set example_remnants. \<exists>t. Tsena w = PStr t \<and> ''111'' = py_str (Kod w)
          \<and> price_conversion t \<noteq> []
          \<and> int_of_str (price_conversion t) = Inr 5990
          \<and> 5990 = int (decimal_value (price_conversion t)))"
proof -
  have a: "list_all is_digit ''111''" by code_simp
  have b: "market_create_prices example_remnants [''111'']
       = Inr [\<lparr>market_id = ''111'', price_value = 5990, currencyId = ''RUR''\<rparr>]"
    by code_simp
  note t = price_conversion_truncates [of _ "''111''" "''99''" example_remnants "[''111'']"
      "[\<lparr>market_id = ''111'', price_value = 5990, currencyId = ''RUR''\<rparr>]"]
  have c: "price_conversion (''111'' @ CHR ''.'' # ''99'') = ''111''" using t a by blast
  from t b have "\<forall>p\<in>set [\<lparr>market_id = ''111'', price_value = 5990, currencyId = ''RUR''\<rparr>].
         \<exists>w\<in>set example_remnants. \<exists>t. Tsena w = PStr t \<and> market_id p = py_str (Kod w)
          \<and> price_conversion t \<noteq> []
          \<and> int_of_str (price_conversion t) = Inr (price_value p)
          \<and> price_value p = int (decimal_value (price_conversion t))"
    by blast
  then have d: "\<exists>w\<in>set example_remnants. \<exists>t. Tsena w = PStr t \<and> ''111'' = py_str (Kod w)
          \<and> price_conversion t \<noteq> []
          \<and> int_of_str (price_conversion t) = Inr 5990
          \<and> 5990 = int (decimal_value (price_conversion t))"
    by simp
  show ?thesis using a b c d by blast
qed

section \<open>Pagination\<close>

lemma seller_get_products_all:
  "seller_serves w k tok ps \<Longrightarrow> ozon_ends (length acc) ps \<Longrightarrow>
     seller_get_products w k tok acc
       = Some (Inr (acc @ concat (map result_items ps)), k + length ps)"
proof (induction ps arbitrary: k tok acc)
  case Nil
  then show ?case by simp
next
  case (Cons p ps)
  from Cons.prems(1) have r: "seller_get_product_list w k tok = Inr p"
    and s: "seller_serves w (Suc k) (result_last_id p) ps" by simp_all
  show ?case
  proof (cases ps)
    case Nil
    with Cons.prems(2) have "result_total p = int (length (acc @ result_items p))" by simp
    then show ?thesis using r Nil by (subst seller_get_products.simps) simp
  next
    case (Cons q qs)
    with Cons.prems(2) have ne: "result_total p \<noteq> int (length (acc @ result_items p))"
      and e: "ozon_ends (length (acc @ result_items p)) ps" by simp_all
    from Cons.IH [OF s e] have
      "seller_get_products w (Suc k) (result_last_id p) (acc @ result_items p)
        = Some (Inr ((acc @ result_items p) @ concat (map result_items ps)), Suc k + length ps)" .
    then show ?thesis using r ne by (subst seller_get_products.simps) simp
  qed
qed

lemma market_get_products_all:
  "market_serves w c k tok ps \<Longrightarrow> ps \<noteq> [] \<Longrightarrow> falsy (nextPageToken (last ps)) \<Longrightarrow>
     market_get_products w c k tok acc
       = Some (Inr (acc @ concat (map offerMappingEntries ps)), k + length ps)"
proof (induction ps arbitrary: k tok acc)
  case Nil
  then show ?case by simp
next
  case (Cons p ps)
  from Cons.prems(1) have r: "market_get_product_list w c k tok = Inr p" by simp
  show ?case
  proof (cases "nextPageToken p")
    case None
    with Cons.prems(1) have "ps = []" by simp
    then show ?thesis using r None by (subst market_get_products.simps) simp
  next
    case (Some t)
    show ?thesis
    proof (cases "t = []")
      case True
      with Cons.prems(1) Some have "ps = []" by simp
      then show ?thesis using r Some True by (subst market_get_products.simps) simp
    next
      case False
      with Cons.prems(1) Some have s: "market_serves w c (Suc k) t ps" by simp
      have ne: "ps \<noteq> []"
      proof
        assume "ps = []"
        with Cons.prems(3) Some False show False by (simp add: falsy_def)
      qed
      with Cons.prems(3) have l: "falsy (nextPageToken (last ps))" by simp
      from Cons.IH [OF s ne l] have
        "market_get_products w c (Suc k) t (acc @ offerMappingEntries p)
          = Some (Inr ((acc @ offerMappingEntries p) @ concat (map offerMappingEntries ps)),
                  Suc k + length ps)" .
      then show ?thesis using r Some False by (subst market_get_products.simps) simp
    qed
  qed
qed

lemma seller_get_products_ends:
  "seller_serves w k tok ps \<Longrightarrow> ps \<noteq> [] \<Longrightarrow>
   result_total (last ps) = int (length acc + length (concat (map result_items ps))) \<Longrightarrow>
     \<exists>r k'. seller_get_products w k tok acc = Some (r, k') \<and> k < k' \<and> k' \<le> k + length ps"
proof (induction ps arbitrary: k tok acc)
  case Nil
  then show ?case by simp
next
  case (Cons p ps)
  from Cons.prems(1) have r: "seller_get_product_list w k tok = Inr p"
    and s: "seller_serves w (Suc k) (result_last_id p) ps" by simp_all
  show ?case
  proof (cases "result_total p = int (length (acc @ result_items p))")
    case True
    then have "seller_get_products w k tok acc = Some (Inr (acc @ result_items p), Suc k)"
      using r by (subst seller_get_products.simps) simp
    then show ?thesis by simp
  next
    case False
    have ne: "ps \<noteq> []"
    proof
      assume "ps = []"
      with Cons.prems(3) False show False by simp
    qed
    with Cons.prems(3) have
      "result_total (last ps)
         = int (length (acc @ result_items p) + length (concat (map result_items ps)))"
      by simp
    from Cons.IH [OF s ne this] obtain r' k' where
      g: "seller_get_products w (Suc k) (result_last_id p) (acc @ result_items p) = Some (r', k')"
      and b: "Suc k < k'" "k' \<le> Suc k + length ps" by blast
    have "seller_get_products w k tok acc = Some (r', k')"
      using r False g by (subst seller_get_products.simps) simp
    then show ?thesis using b by simp
  qed
qed

text \<open>
  C6. When the store serves the pages \<open>ps\<close> one after the other and the stream signals
  its end at the last of them (Ozon: there, and not before, the reported total equals the
  number of items accumulated; Yandex.Market: the last page has no \<open>nextPageToken\<close> or
  an empty one), \<open>get_offer_ids\<close> returns, after one request per page, the offer ids of
  all pages in page order.
\<close>

theorem get_offer_ids_collects:
  "(seller_serves w k [] ps \<and> ozon_ends 0 ps \<longrightarrow>
      seller_get_offer_ids w k
        = Some (Inr (map offer_id (concat (map result_items ps))), k + length ps))
   \<and> (market_serves mw campaign_id k [] qs \<and> qs \<noteq> [] \<and> falsy (nextPageToken (last qs)) \<longrightarrow>
      market_get_offer_ids mw campaign_id k
        = Some (Inr (map shopSku (concat (map offerMappingEntries qs))), k + length qs))"
proof (intro conjI impI)
  assume "seller_serves w k [] ps \<and> ozon_ends 0 ps"
  then have "seller_get_products w k [] []
      = Some (Inr ([] @ concat (map result_items ps)), k + length ps)"
    by (intro seller_get_products_all) simp_all
  then show "seller_get_offer_ids w k
        = Some (Inr (map offer_id (concat (map result_items ps))), k + length ps)"
    by (simp add: seller_get_offer_ids_def)
next
  assume "market_serves mw campaign_id k [] qs \<and> qs \<noteq> [] \<and> falsy (nextPageToken (last qs))"
  then have "market_get_products mw campaign_id k [] []
      = Some (Inr ([] @ concat (map offerMappingEntries qs)), k + length qs)"
    by (intro market_get_products_all) simp_all
  then show "market_get_offer_ids mw campaign_id k
        = Some (Inr (map shopSku (concat (map offerMappingEntries qs))), k + length qs)"
    by (simp add: market_get_offer_ids_def)
qed

theorem get_offer_ids_collects_witness:
  "seller_serves example_seller_world 0 [] example_ozon_pages \<and> ozon_ends 0 example_ozon_pages
   \<and> seller_get_offer_ids example_seller_world 0 = Some (Inr [''111'', ''222''], 1)
   \<and> market_serves example_market_world ''c'' 0 [] example_market_pages
   \<and> example_market_pages \<noteq> [] \<and> falsy (nextPageToken (last example_market_pages))
   \<and> market_get_offer_ids example_market_world ''c'' 0 = Some (Inr [''111'', ''222''], 2)"
proof -
  have a: "seller_serves example_seller_world 0 [] example_ozon_pages \<and> ozon_ends 0 example_ozon_pages"
    by code_simp
  have b: "market_serves example_market_world ''c'' 0 [] example_market_pages
     \<and> example_market_pages \<noteq> [] \<and> falsy (nextPageToken (last example_market_pages))"
    by code_simp
  have c: "map offer_id (concat (map result_items example_ozon_pages)) = [''111'', ''222'']
     \<and> 0 + length example_ozon_pages = 1"
    by code_simp
  have d: "map shopSku (concat (map offerMappingEntries example_market_pages)) = [''111'', ''222'']
     \<and> 0 + length example_market_pages = 2"
    by code_simp
  from get_offer_ids_collects [of example_seller_world 0 example_ozon_pages
      example_market_world "''c''" example_market_pages] a b c d
  show ?thesis by simp
qed

text \<open>
  C7. The loop of \<open>get_offer_ids\<close> ends, after at most one request per page: for Ozon
  whenever, at some page of the stream, the reported total equals the number of items
  accumulated up to and including that page; for Yandex.Market whenever some page of the
  stream has no \<open>nextPageToken\<close> or an empty one.
\<close>

theorem get_offer_ids_terminates:
  "(seller_serves w k [] ps \<and> ps \<noteq> []
      \<and> result_total (last ps) = int (length (concat (map result_items ps))) \<longrightarrow>
      (\<exists>r k'. seller_get_offer_ids w k = Some (r, k') \<and> k' - k \<le> length ps))
   \<and> (market_serves mw campaign_id k [] qs \<and> qs \<noteq> [] \<and> falsy (nextPageToken (last qs)) \<longrightarrow>
      (\<exists>r k'. market_get_offer_ids mw campaign_id k = Some (r, k') \<and> k' - k \<le> length qs))"
proof (intro conjI impI)
  assume "seller_serves w k [] ps \<and> ps \<noteq> []
      \<and> result_total (last ps) = int (length (concat (map result_items ps)))"
  then have "\<exists>r k'. seller_get_products w k [] [] = Some (r, k') \<and> k < k' \<and> k' \<le> k + length ps"
    by (intro seller_get_products_ends) simp_all
  then obtain r k' where g: "seller_get_products w k [] [] = Some (r, k')"
    and b: "k' \<le> k + length ps" by blast
  show "\<exists>r k'. seller_get_offer_ids w k = Some (r, k') \<and> k' - k \<le> length ps"
    using g b by (cases r) (auto simp: seller_get_offer_ids_def)
next
  assume "market_serves mw campaign_id k [] qs \<and> qs \<noteq> [] \<and> falsy (nextPageToken (last qs))"
  then have "market_get_products mw campaign_id k [] []
      = Some (Inr ([] @ concat (map offerMappingEntries qs)), k + length qs)"
    by (intro market_get_products_all) simp_all
  then show "\<exists>r k'. market_get_offer_ids mw campaign_id k = Some (r, k') \<and> k' - k \<le> length qs"
    by (simp add: market_get_offer_ids_def)
qed

theorem get_offer_ids_terminates_witness:
  "seller_serves example_seller_world 0 [] example_ozon_pages \<and> example_ozon_pages \<noteq> []
   \<and> result_total (last example_ozon_pages)
       = int (length (concat (map result_items example_ozon_pages)))
   \<and> market_serves example_market_world ''c'' 0 [] example_market_pages
   \<and> example_market_pages \<noteq> [] \<and> falsy (nextPageToken (last example_market_pages))
   \<and> (\<exists>r k'. seller_get_offer_ids example_seller_world 0 = Some (r, k')
         \<and> k' - 0 \<le> length example_ozon_pages)
   \<and> (\<exists>r k'. market_get_offer_ids example_market_world ''c'' 0 = Some (r, k')
         \<and> k' - 0 \<le> length example_market_pages)"
proof -
  have a: "seller_serves example_seller_world 0 [] example_ozon_pages \<and> example_ozon_pages \<noteq> []
   \<and> result_total (last example_ozon_pages)
       = int (length (concat (map result_items example_ozon_pages)))"
    by code_simp
  have b: "market_serves example_market_world ''c'' 0 [] example_market_pages
     \<and> example_market_pages \<noteq> [] \<and> falsy (nextPageToken (last example_market_pages))"
    by code_simp
  from get_offer_ids_terminates [of example_seller_world 0 example_ozon_pages
      example_market_world "''c''" example_market_pages] a b
  show ?thesis by blast
qed

text \<open>
  The end test of the Ozon loop is an equality. When the count of accumulated items steps
  over the reported total without ever being equal to it, the loop goes on for as long
  as the store answers: here it never returns.
\<close>

lemma overshoot_never_ends_aux:
  assumes "seller_get_products w k tok acc = Some y"
  shows "\<not> (w = overshoot_seller_world \<and> even (length acc))"
proof (rule seller_get_products.raw_induct
    [where P = "\<lambda>w k tok acc y. \<not> (w = overshoot_seller_world \<and> even (length acc))",
      OF _ assms])
  fix f w k tok acc y
  assume IH: "\<And>w k tok acc y. f w k tok acc = Some y \<Longrightarrow>
      \<not> (w = overshoot_seller_world \<and> even (length acc))"
    and step: "(case seller_get_product_list w k tok of
        Inl e \<Rightarrow> Some (Inl e, Suc k)
      | Inr some_prod \<Rightarrow>
          if result_total some_prod = int (length (acc @ result_items some_prod))
          then Some (Inr (acc @ result_items some_prod), Suc k)
          else f w (Suc k) (result_last_id some_prod) (acc @ result_items some_prod)) = Some y"
  show "\<not> (w = overshoot_seller_world \<and> even (length acc))"
  proof
    assume a: "w = overshoot_seller_world \<and> even (length acc)"
    then have "even (length acc)" by simp
    then have "length acc \<noteq> 1" by auto
    then have "int (length acc) + 2 \<noteq> 3" by simp
    with step a
    have "f w (Suc k) ''x'' (acc @ [\<lparr>offer_id = ''111''\<rparr>, \<lparr>offer_id = ''222''\<rparr>]) = Some y"
      by (simp add: overshoot_seller_world_def example_seller_world_def
          seller_get_product_list_def)
    from IH [OF this] a show False by simp
  qed
qed

lemma overshoot_never_ends: "seller_get_offer_ids overshoot_seller_world 0 = None"
proof (cases "seller_get_products overshoot_seller_world 0 [] []")
  case None
  then show ?thesis by (simp add: seller_get_offer_ids_def)
next
  case (Some y)
  from overshoot_never_ends_aux [OF this] show ?thesis by simp
qed

section \<open>Uploads and main\<close>

lemma divide_from_length: "c \<in> set (divide_from lst n i) \<Longrightarrow> length c \<le> n"
proof (induction lst n i rule: divide_from.induct)
  case (1 lst n i)
  show ?case
  proof (cases "i < length lst \<and> 0 < n")
    case True
    with "1.prems" have "c = take n (drop i lst) \<or> c \<in> set (divide_from lst n (i + n))"
      by (subst (asm) divide_from.simps) auto
    then show ?thesis using "1.IH" True by auto
  next
    case False
    with "1.prems" show ?thesis by (subst (asm) divide_from.simps) auto
  qed
qed

lemma divide_list_length:
  "divide_list lst n = Inr chunks \<Longrightarrow> c \<in> set chunks \<Longrightarrow> int (length c) \<le> n"
  by (auto simp: divide_list_def split: if_splits dest: divide_from_length)

lemma send_batches_sent: "send_batches reply k chunks = (r, sent) \<Longrightarrow> set sent \<subseteq> set chunks"
proof (induction chunks arbitrary: k r sent)
  case Nil
  then show ?case by simp
next
  case (Cons a chunks)
  show ?case
  proof (cases "reply k a")
    case (Some e)
    with Cons.prems show ?thesis by auto
  next
    case None
    obtain r' sent' where s: "send_batches reply (Suc k) chunks = (r', sent')"
      by (cases "send_batches reply (Suc k) chunks")
    with Cons.prems None have "sent = a # sent'" by simp
    moreover have "set sent' \<subseteq> set chunks" using Cons.IH [OF s] .
    ultimately show ?thesis by auto
  qed
qed

lemma batches_bounded:
  "divide_list lst n = Inr chunks \<Longrightarrow> send_batches reply k chunks = (r, sent) \<Longrightarrow>
     b \<in> set sent \<Longrightarrow> int (length b) \<le> n"
  using divide_list_length send_batches_sent by blast

lemma seller_upload_stocks_bound:
  "seller_upload_stocks w rs = Some (r, sent) \<Longrightarrow> b \<in> set sent \<Longrightarrow> length b \<le> 100"
  by (auto simp: seller_upload_stocks_def split: option.splits sum.splits prod.splits
      dest!: batches_bounded)

lemma seller_upload_prices_bound:
  "seller_upload_prices w rs = Some (r, sent) \<Longrightarrow> b \<in> set sent \<Longrightarrow> length b \<le> 1000"
  by (auto simp: seller_upload_prices_def split: option.splits sum.splits prod.splits
      dest!: batches_bounded)

lemma market_upload_stocks_bound:
  "market_upload_stocks w rs c wh = Some (r, sent) \<Longrightarrow> b \<in> set sent \<Longrightarrow> length b \<le> 2000"
  by (auto simp: market_upload_stocks_def split: option.splits sum.splits prod.splits
      dest!: batches_bounded)

lemma market_upload_prices_bound:
  "market_upload_prices w rs c = Some (r, sent) \<Longrightarrow> b \<in> set sent \<Longrightarrow> length b \<le> 500"
  by (auto simp: market_upload_prices_def split: option.splits sum.splits prod.splits
      dest!: batches_bounded)

lemma seller_block_bound:
  "seller_block w = Some (r, sent, psent) \<Longrightarrow>
     (\<forall>b\<in>set sent. length b \<le> 100) \<and> (\<forall>b\<in>set psent. length b \<le> 900)"
  by (auto simp: seller_block_def split: option.splits sum.splits prod.splits
      dest!: batches_bounded)

lemma market_sync_bound:
  "market_sync w rs c wh k = Some (r, sent) \<Longrightarrow> b \<in> set sent \<Longrightarrow> length b \<le> 2000"
  by (auto simp: market_sync_def split: option.splits sum.splits prod.splits
      dest!: batches_bounded)

lemma market_block_bound:
  "market_block w rs f d wh1 wh2 = Some (r, sent) \<Longrightarrow> b \<in> set sent \<Longrightarrow> length b \<le> 2000"
  by (auto simp: market_block_def split: option.splits sum.splits prod.splits
      dest: market_sync_bound)

text \<open>
  C3. For every list and every positive \<open>n\<close>, each chunk of \<open>divide\<close> has at most \<open>n\<close>
  elements. The upload routines divide with the fixed ceilings, so every batch they send
  has at most 100 stocks or 1000 prices (Ozon), 2000 stocks or 500 prices
  (Yandex.Market); the batches that the two \<open>main\<close> send stay within the same ceilings.
\<close>

theorem batches_within_ceiling:
  "(0 < n \<longrightarrow> (\<exists>chunks. divide_list lst n = Inr chunks \<and> (\<forall>c\<in>set chunks. int (length c) \<le> n)))
   \<and> (seller_upload_stocks w watch_remnants = Some (r1, sent1) \<longrightarrow>
        (\<forall>b\<in>set sent1. length b \<le> 100))
   \<and> (seller_upload_prices w watch_remnants = Some (r2, sent2) \<longrightarrow>
        (\<forall>b\<in>set sent2. length b \<le> 1000))
   \<and> (market_upload_stocks mw watch_remnants campaign_id warehouse_id = Some (r3, sent3) \<longrightarrow>
        (\<forall>b\<in>set sent3. length b \<le> 2000))
   \<and> (market_upload_prices mw watch_remnants campaign_id = Some (r4, sent4) \<longrightarrow>
        (\<forall>b\<in>set sent4. length b \<le> 500))
   \<and> (seller_block w = Some (r5, sent5, psent5) \<longrightarrow>
        (\<forall>b\<in>set sent5. length b \<le> 100) \<and> (\<forall>b\<in>set psent5. length b \<le> 1000))
   \<and> (market_block mw watch_remnants fbs dbs wfbs wdbs = Some (r6, sent6) \<longrightarrow>
        (\<forall>b\<in>set sent6. length b \<le> 2000))"
proof (intro conjI impI)
  assume n: "0 < n"
  then have d: "divide_list lst n = Inr (divide_from lst (nat n) 0)"
    by (simp add: divide_list_def)
  then have "\<forall>c\<in>set (divide_from lst (nat n) 0). int (length c) \<le> n"
    using divide_list_length by blast
  with d show "\<exists>chunks. divide_list lst n = Inr chunks \<and> (\<forall>c\<in>set chunks. int (length c) \<le> n)"
    by blast
next
  assume "seller_upload_stocks w watch_remnants = Some (r1, sent1)"
  then show "\<forall>b\<in>set sent1. length b \<le> 100" using seller_upload_stocks_bound by blast
next
  assume "seller_upload_prices w watch_remnants = Some (r2, sent2)"
  then show "\<forall>b\<in>set sent2. length b \<le> 1000" using seller_upload_prices_bound by blast
next
  assume "market_upload_stocks mw watch_remnants campaign_id warehouse_id = Some (r3, sent3)"
  then show "\<forall>b\<in>set sent3. length b \<le> 2000" using market_upload_stocks_bound by blast
next
  assume "market_upload_prices mw watch_remnants campaign_id = Some (r4, sent4)"
  then show "\<forall>b\<in>set sent4. length b \<le> 500" using market_upload_prices_bound by blast
next
  assume a: "seller_block w = Some (r5, sent5, psent5)"
  then show "\<forall>b\<in>set sent5. length b \<le> 100" using seller_block_bound by blast
  from a have "\<forall>b\<in>set psent5. length b \<le> 900" using seller_block_bound by blast
  then show "\<forall>b\<in>set psent5. length b \<le> 1000" by fastforce
next
  assume "market_block mw watch_remnants fbs dbs wfbs wdbs = Some (r6, sent6)"
  then show "\<forall>b\<in>set sent6. length b \<le> 2000" using market_block_bound by blast
qed

theorem batches_within_ceiling_witness:
  "(0::int) < 2
   \<and> divide_list [1, 2, 3, 4, 5 :: int] 2 = Inr [[1, 2], [3, 4], [5]]
   \<and> list_all (\<lambda>c. int (length c) \<le> 2) [[1, 2], [3, 4], [5 :: int]]
   \<and> seller_upload_stocks example_seller_world example_remnants
       = Some (Inr ([\<lparr>stock_offer_id = ''111'', stock = 5\<rparr>],
                    [\<lparr>stock_offer_id = ''111'', stock = 5\<rparr>, \<lparr>stock_offer_id = ''222'', stock = 0\<rparr>]),
               [[\<lparr>stock_offer_id = ''111'', stock = 5\<rparr>, \<lparr>stock_offer_id = ''222'', stock = 0\<rparr>]])
   \<and> list_all (\<lambda>b. length b \<le> 100)
         [[\<lparr>stock_offer_id = ''111'', stock = 5\<rparr>, \<lparr>stock_offer_id = ''222'', stock = 0\<rparr>]]
   \<and> (\<exists>r sent. seller_upload_prices example_seller_world example_remnants = Some (r, sent)
         \<and> sent \<noteq> [] \<and> (\<forall>b\<in>set sent. length b \<le> 1000))
   \<and> (\<exists>r sent. market_upload_stocks example_market_world example_remnants ''c'' ''w1'' = Some (r, sent)
         \<and> sent \<noteq> [] \<and> (\<forall>b\<in>set sent. length b \<le> 2000))
   \<and> (\<exists>r sent. market_upload_prices example_market_world example_remnants ''c'' = Some (r, sent)
         \<and> sent \<noteq> [] \<and> (\<forall>b\<in>set sent. length b \<le> 500))
   \<and> (\<exists>r sent psent. seller_block example_seller_world = Some (r, sent, psent)
         \<and> sent \<noteq> [] \<and> (\<forall>b\<in>set sent. length b \<le> 100) \<and> (\<forall>b\<in>set psent. length b \<le> 1000))
   \<and> (\<exists>r sent. market_block example_market_world example_remnants ''f'' ''d'' ''wf'' ''wd'' = Some (r, sent)
         \<and> sent \<noteq> [] \<and> (\<forall>b\<in>set sent. length b \<le> 2000))"
proof -
  have n: "(0::int) < 2" by simp
  have d: "divide_list [1, 2, 3, 4, 5 :: int] 2 = Inr [[1, 2], [3, 4], [5]]" by code_simp
  have e1: "seller_upload_stocks example_seller_world example_remnants
       = Some (Inr ([\<lparr>stock_offer_id = ''111'', stock = 5\<rparr>],
                    [\<lparr>stock_offer_id = ''111'', stock = 5\<rparr>, \<lparr>stock_offer_id = ''222'', stock = 0\<rparr>]),
               [[\<lparr>stock_offer_id = ''111'', stock = 5\<rparr>, \<lparr>stock_offer_id = ''222'', stock = 0\<rparr>]])"
    by code_simp
  have e2: "seller_upload_prices example_seller_world example_remnants
       = Some (Inr [\<lparr>auto_action_enabled = ''UNKNOWN'', currency_code = ''RUB'',
                     price_offer_id = ''111'', old_price = ''0'', price = ''5990''\<rparr>],
               [[\<lparr>auto_action_enabled = ''UNKNOWN'', currency_code = ''RUB'',
                  price_offer_id = ''111'', old_price = ''0'', price = ''5990''\<rparr>]])"
    by code_simp
  have e3: "market_upload_stocks example_market_world example_remnants ''c'' ''w1''
       = Some (Inr ([\<lparr>sku = ''111'', warehouseId = ''w1'',
                       items = [\<lparr>count = 5, item_type = ''FIT'', updatedAt = ''d1''\<rparr>]\<rparr>],
                    [\<lparr>sku = ''111'', warehouseId = ''w1'',
                       items = [\<lparr>count = 5, item_type = ''FIT'', updatedAt = ''d1''\<rparr>]\<rparr>,
                     \<lparr>sku = ''222'', warehouseId = ''w1'',
                       items = [\<lparr>count = 0, item_type = ''FIT'', updatedAt = ''d1''\<rparr>]\<rparr>]),
               [[\<lparr>sku = ''111'', warehouseId = ''w1'',
                   items = [\<lparr>count = 5, item_type = ''FIT'', updatedAt = ''d1''\<rparr>]\<rparr>,
                 \<lparr>sku = ''222'', warehouseId = ''w1'',
                   items = [\<lparr>count = 0, item_type = ''FIT'', updatedAt = ''d1''\<rparr>]\<rparr>]])"
    by code_simp
  have e4: "market_upload_prices example_market_world example_remnants ''c''
       = Some (Inr [\<lparr>market_id = ''111'', price_value = 5990, currencyId = ''RUR''\<rparr>],
               [[\<lparr>market_id = ''111'', price_value = 5990, currencyId = ''RUR''\<rparr>]])"
    by code_simp
  have e5: "seller_block example_seller_world
       = Some (None, [[\<lparr>stock_offer_id = ''111'', stock = 5\<rparr>,
                       \<lparr>stock_offer_id = ''222'', stock = 0\<rparr>]], [])"
    by code_simp
  have e6: "market_block example_market_world example_remnants ''f'' ''d'' ''wf'' ''wd''
       = Some (None,
           [[\<lparr>sku = ''111'', warehouseId = ''wf'',
               items = [\<lparr>count = 5, item_type = ''FIT'', updatedAt = ''d1''\<rparr>]\<rparr>,
             \<lparr>sku = ''222'', warehouseId = ''wf'',
               items = [\<lparr>count = 0, item_type = ''FIT'', updatedAt = ''d1''\<rparr>]\<rparr>],
            [\<lparr>sku = ''111'', warehouseId = ''wd'',
               items = [\<lparr>count = 5, item_type = ''FIT'', updatedAt = ''d1''\<rparr>]\<rparr>,
             \<lparr>sku = ''222'', warehouseId = ''wd'',
               items = [\<lparr>count = 0, item_type = ''FIT'', updatedAt = ''d1''\<rparr>]\<rparr>]])"
    by code_simp
  note t = batches_within_ceiling [of 2 "[1, 2, 3, 4, 5 :: int]" example_seller_world
      example_remnants _ _ _ _ example_market_world "''c''" "''w1''" _ _ _ _ _ _ _
      "''f''" "''d''" "''wf''" "''wd''"]
  have c1: "list_all (\<lambda>c. int (length c) \<le> 2) [[1, 2], [3, 4], [5 :: int]]"
    using t n d unfolding list_all_iff by simp
  have c2: "list_all (\<lambda>b. length b \<le> 100)
         [[\<lparr>stock_offer_id = ''111'', stock = 5\<rparr>, \<lparr>stock_offer_id = ''222'', stock = 0\<rparr>]]"
    using t e1 unfolding list_all_iff by blast
  have c3: "\<exists>r sent. seller_upload_prices example_seller_world example_remnants = Some (r, sent)
         \<and> sent \<noteq> [] \<and> (\<forall>b\<in>set sent. length b \<le> 1000)" using t e2 by blast
  have c4: "\<exists>r sent. market_upload_stocks example_market_world example_remnants ''c'' ''w1'' = Some (r, sent)
         \<and> sent \<noteq> [] \<and> (\<forall>b\<in>set sent. length b \<le> 2000)" using t e3 by blast
  have c5: "\<exists>r sent. market_upload_prices example_market_world example_remnants ''c'' = Some (r, sent)
         \<and> sent \<noteq> [] \<and> (\<forall>b\<in>set sent. length b \<le> 500)" using t e4 by blast
  have c6: "\<exists>r sent psent. seller_block example_seller_world = Some (r, sent, psent)
         \<and> sent \<noteq> [] \<and> (\<forall>b\<in>set sent. length b \<le> 100) \<and> (\<forall>b\<in>set psent. length b \<le> 1000)"
    using t e5 by blast
  have c7: "\<exists>r sent. market_block example_market_world example_remnants ''f'' ''d'' ''wf'' ''wd'' = Some (r, sent)
         \<and> sent \<noteq> [] \<and> (\<forall>b\<in>set sent. length b \<le> 2000)" using t e6 by blast
  show ?thesis using n d e1 c1 c2 c3 c4 c5 c6 c7 by blast
qed

lemma send_batches_all: "send_batches reply k chunks = (None, sent) \<Longrightarrow> sent = chunks"
proof (induction chunks arbitrary: k sent)
  case Nil
  then show ?case by simp
next
  case (Cons a chunks)
  show ?case
  proof (cases "reply k a")
    case (Some e)
    with Cons.prems show ?thesis by simp
  next
    case None
    obtain r' sent' where s: "send_batches reply (Suc k) chunks = (r', sent')"
      by (cases "send_batches reply (Suc k) chunks")
    with Cons.prems None have e: "r' = None" "sent = a # sent'" by simp_all
    with s Cons.IH have "sent' = chunks" by simp
    with e show ?thesis by simp
  qed
qed

lemma divide_list_concat: "divide_list lst n = Inr chunks \<Longrightarrow> 0 < n \<Longrightarrow> concat chunks = lst"
  by (auto simp: divide_list_def divide_from_concat)

lemma all_sent:
  "divide_list lst n = Inr chunks \<Longrightarrow> 0 < n \<Longrightarrow> send_batches reply k chunks = (None, sent) \<Longrightarrow>
     concat sent = lst"
  using send_batches_all divide_list_concat by blast

text \<open>
  C4. For every list and every positive \<open>n\<close>, \<open>divide\<close> returns its chunks and their
  concatenation, in order, is the list itself: batching drops, repeats and reorders
  nothing. So when an upload routine returns normally, the batches it has sent, put end
  to end, are exactly the records it built.
\<close>

theorem divide_concat:
  "(0 < n \<longrightarrow> (\<exists>chunks. divide_list lst n = Inr chunks \<and> concat chunks = lst))
   \<and> (seller_upload_stocks w watch_remnants = Some (Inr (not_empty, stocks), sent1) \<longrightarrow>
        concat sent1 = stocks)
   \<and> (seller_upload_prices w watch_remnants = Some (Inr prices, sent2) \<longrightarrow>
        concat sent2 = prices)
   \<and> (market_upload_stocks mw watch_remnants campaign_id warehouse_id
          = Some (Inr (mnot_empty, mstocks), sent3) \<longrightarrow>
        concat sent3 = mstocks)
   \<and> (market_upload_prices mw watch_remnants campaign_id = Some (Inr mprices, sent4) \<longrightarrow>
        concat sent4 = mprices)"
proof (intro conjI impI)
  assume "0 < n"
  then show "\<exists>chunks. divide_list lst n = Inr chunks \<and> concat chunks = lst"
    by (simp add: divide_list_def divide_from_concat)
next
  assume "seller_upload_stocks w watch_remnants = Some (Inr (not_empty, stocks), sent1)"
  then show "concat sent1 = stocks"
    by (auto simp: seller_upload_stocks_def split: option.splits sum.splits prod.splits
        dest!: all_sent)
next
  assume "seller_upload_prices w watch_remnants = Some (Inr prices, sent2)"
  then show "concat sent2 = prices"
    by (auto simp: seller_upload_prices_def split: option.splits sum.splits prod.splits
        dest!: all_sent)
next
  assume "market_upload_stocks mw watch_remnants campaign_id warehouse_id
          = Some (Inr (mnot_empty, mstocks), sent3)"
  then show "concat sent3 = mstocks"
    by (auto simp: market_upload_stocks_def split: option.splits sum.splits prod.splits
        dest!: all_sent)
next
  assume "market_upload_prices mw watch_remnants campaign_id = Some (Inr mprices, sent4)"
  then show "concat sent4 = mprices"
    by (auto simp: market_upload_prices_def split: option.splits sum.splits prod.splits
        dest!: all_sent)
qed

theorem divide_concat_witness:
  "(0::int) < 2
   \<and> divide_list [1, 2, 3, 4, 5 :: int] 2 = Inr [[1, 2], [3, 4], [5]]
   \<and> concat [[1, 2], [3, 4], [5 :: int]] = [1, 2, 3, 4, 5]
   \<and> (\<exists>not_empty stocks sent.
         seller_upload_stocks example_seller_world example_remnants
           = Some (Inr (not_empty, stocks), sent) \<and> stocks \<noteq> [] \<and> concat sent = stocks)
   \<and> (\<exists>prices sent.
         seller_upload_prices example_seller_world example_remnants = Some (Inr prices, sent)
         \<and> prices \<noteq> [] \<and> concat sent = prices)
   \<and> (\<exists>not_empty stocks sent.
         market_upload_stocks example_market_world example_remnants ''c'' ''w1''
           = Some (Inr (not_empty, stocks), sent) \<and> stocks \<noteq> [] \<and> concat sent = stocks)
   \<and> (\<exists>prices sent.
         market_upload_prices example_market_world example_remnants ''c'' = Some (Inr prices, sent)
         \<and> prices \<noteq> [] \<and> concat sent = prices)"
proof -
  have n: "(0::int) < 2" by simp
  have d: "divide_list [1, 2, 3, 4, 5 :: int] 2 = Inr [[1, 2], [3, 4], [5]]" by code_simp
  have e1: "seller_upload_stocks example_seller_world example_remnants
       = Some (Inr ([\<lparr>stock_offer_id = ''111'', stock = 5\<rparr>],
                    [\<lparr>stock_offer_id = ''111'', stock = 5\<rparr>, \<lparr>stock_offer_id = ''222'', stock = 0\<rparr>]),
               [[\<lparr>stock_offer_id = ''111'', stock = 5\<rparr>, \<lparr>stock_offer_id = ''222'', stock = 0\<rparr>]])"
    by code_simp
  have e2: "seller_upload_prices example_seller_world example_remnants
       = Some (Inr [\<lparr>auto_action_enabled = ''UNKNOWN'', currency_code = ''RUB'',
                     price_offer_id = ''111'', old_price = ''0'', price = ''5990''\<rparr>],
               [[\<lparr>auto_action_enabled = ''UNKNOWN'', currency_code = ''RUB'',
                  price_offer_id = ''111'', old_price = ''0'', price = ''5990''\<rparr>]])"
    by code_simp
  have e3: "market_upload_stocks example_market_world example_remnants ''c'' ''w1''
       = Some (Inr ([\<lparr>sku = ''111'', warehouseId = ''w1'',
                       items = [\<lparr>count = 5, item_type = ''FIT'', updatedAt = ''d1''\<rparr>]\<rparr>],
                    [\<lparr>sku = ''111'', warehouseId = ''w1'',
                       items = [\<lparr>count = 5, item_type = ''FIT'', updatedAt = ''d1''\<rparr>]\<rparr>,
                     \<lparr>sku = ''222'', warehouseId = ''w1'',
                       items = [\<lparr>count = 0, item_type = ''FIT'', updatedAt = ''d1''\<rparr>]\<rparr>]),
               [[\<lparr>sku = ''111'', warehouseId = ''w1'',
                   items = [\<lparr>count = 5, item_type = ''FIT'', updatedAt = ''d1''\<rparr>]\<rparr>,
                 \<lparr>sku = ''222'', warehouseId = ''w1'',
                   items = [\<lparr>count = 0, item_type = ''FIT'', updatedAt = ''d1''\<rparr>]\<rparr>]])"
    by code_simp
  have e4: "market_upload_prices example_market_world example_remnants ''c''
       = Some (Inr [\<lparr>market_id = ''111'', price_value = 5990, currencyId = ''RUR''\<rparr>],
               [[\<lparr>market_id = ''111'', price_value = 5990, currencyId = ''RUR''\<rparr>]])"
    by code_simp
  note t = divide_concat [of 2 "[1, 2, 3, 4, 5 :: int]" example_seller_world example_remnants
      _ _ _ _ _ example_market_world "''c''" "''w1''"]
  have c0: "concat [[1, 2], [3, 4], [5 :: int]] = [1, 2, 3, 4, 5]" using t n d by simp
  have c1: "\<exists>not_empty stocks sent.
         seller_upload_stocks example_seller_world example_remnants
           = Some (Inr (not_empty, stocks), sent) \<and> stocks \<noteq> [] \<and> concat sent = stocks"
    using t e1 by blast
  have c2: "\<exists>prices sent.
         seller_upload_prices example_seller_world example_remnants = Some (Inr prices, sent)
         \<and> prices \<noteq> [] \<and> concat sent = prices"
    using t e2 by blast
  have c3: "\<exists>not_empty stocks sent.
         market_upload_stocks example_market_world example_remnants ''c'' ''w1''
           = Some (Inr (not_empty, stocks), sent) \<and> stocks \<noteq> [] \<and> concat sent = stocks"
    using t e3 by blast
  have c4: "\<exists>prices sent.
         market_upload_prices example_market_world example_remnants ''c'' = Some (Inr prices, sent)
         \<and> prices \<noteq> [] \<and> concat sent = prices"
    using t e4 by blast
  show ?thesis using n d c0 c1 c2 c3 c4 by blast
qed



end
